theory Spec2Isabelle
  imports Main "HOL-Library.Sublist"
begin

section \<open>mark-for-deployment: signalling a deploy and waiting for it\<close>

text \<open>
  A shallow embedding of \<^verbatim>\<open>paasta_tools/cli/cmds/mark_for_deployment.py\<close>.
  Every function of the module is a HOL function of the same name. What the module
  reads from the outside world (the git remote, the PaaSTA API, the service
  validator, the alarm of the \<^verbatim>\<open>Timeout\<close> context manager) is a field of the
  record \<open>env\<close>; what it does to the outside world is a list of \<open>effect\<close>s, in
  program order; what it raises is a value of \<open>error\<close>.
\<close>

subsection \<open>Data\<close>

text \<open>
  The status object returned by \<^verbatim>\<open>api.service.status_instance(...).result()\<close>.
  A field that the response does not carry reads as \<^verbatim>\<open>None\<close>, so every field is
  an \<open>option\<close>. \<^verbatim>\<open>status.marathon\<close> is either \<^verbatim>\<open>None\<close> or a nested object.
\<close>

record marathon_status =
  app_count :: "int option"
  deploy_status :: "string option"
  expected_instance_count :: "int option"
  running_instance_count :: "int option"

record instance_status =
  git_sha :: "string option"
  marathon :: "marathon_status option"

text \<open>
  The exceptions that leave a function of the module. \<open>TypeError\<close> is what
  \<^verbatim>\<open>str.startswith(None)\<close> raises; \<open>SystemExit n\<close> is \<^verbatim>\<open>sys.exit(n)\<close>;
  \<open>ValidationError\<close> stands for whatever \<^verbatim>\<open>validate_service_name\<close> raises.
\<close>

datatype error =
    TypeError
  | NoInstancesFound
  | TimeoutError
  | ValidationError
  | SystemExit int

text \<open>
  The calls that reach the outside world. \<open>Log service line\<close> is
  \<^verbatim>\<open>_log(service=service, line=line, component='deploy', level='event')\<close>:
  every call site of the module passes the same component and level.
\<close>

datatype effect =
    Log string string
  | ValidateServiceName string string
  | CreateRemoteRefs string "string list" string
  | ListInstances string string
  | StatusInstance string string
  | Sleep nat

text \<open>
  The outside world of one run.
  \<^item> \<open>get_paasta_tag_from_deploy_group\<close> and \<open>format_tag\<close> are helpers of
    \<^verbatim>\<open>paasta_tools.utils\<close>; only their results are used, as the ref to push.
  \<^item> \<open>create_remote_refs git_url targets sha\<close> is \<open>None\<close> when the forced push
    returns and \<open>Some msg\<close> when it raises an \<^verbatim>\<open>Exception e\<close> with
    \<^verbatim>\<open>str(e) = msg\<close>.
  \<^item> \<open>validate_service_name service soa_dir\<close> is \<open>True\<close> when the validator returns.
  \<^item> \<open>list_instances service deploy_group\<close> is the \<^verbatim>\<open>'instances'\<close> entry of the
    API's answer.
  \<^item> \<open>status_instance k service instance\<close> is the status the API gives in polling
    round \<open>k\<close> (the answer may change from one round to the next).
  \<^item> \<open>alarm seconds\<close>: see \<open>wait_loop\<close> below.
\<close>

record env =
  get_paasta_tag_from_deploy_group :: "string \<Rightarrow> string \<Rightarrow> string"
  format_tag :: "string \<Rightarrow> string"
  create_remote_refs :: "string \<Rightarrow> string list \<Rightarrow> string \<Rightarrow> string option"
  validate_service_name :: "string \<Rightarrow> string \<Rightarrow> bool"
  list_instances :: "string \<Rightarrow> string \<Rightarrow> string list"
  status_instance :: "nat \<Rightarrow> string \<Rightarrow> string \<Rightarrow> instance_status"
  alarm :: "int \<Rightarrow> nat"

subsection \<open>is_instance_deployed\<close>

text \<open>
  \<^verbatim>\<open>
  def is_instance_deployed(service, instance, git_sha):
      status = api.service.status_instance(service=service, instance=instance).result()
      if not status.marathon:
          return True
      return git_sha.startswith(status.git_sha) and \
          status.marathon.app_count == 1 and \
          status.marathon.deploy_status == 'Running' and \
          status.marathon.expected_instance_count == status.marathon.running_instance_count
  \<close>
  \<^verbatim>\<open>git_sha.startswith(status.git_sha)\<close> is the first conjunct, so it is always
  evaluated: it raises \<^verbatim>\<open>TypeError\<close> when \<^verbatim>\<open>status.git_sha\<close> is \<^verbatim>\<open>None\<close>, and is
  otherwise true exactly when the observed sha is a prefix of the caller's sha.
  The three comparisons with \<^verbatim>\<open>==\<close> never raise, and \<^verbatim>\<open>None == None\<close> is true:
  this is equality of \<open>option\<close> values. The parameter \<open>sha\<close> is the source's
  \<^verbatim>\<open>git_sha\<close>.
\<close>

definition is_instance_deployed :: "env \<Rightarrow> nat \<Rightarrow> string \<Rightarrow> string \<Rightarrow> string \<Rightarrow> error + bool" where
  "is_instance_deployed e k service instance sha =
     (let status = status_instance e k service instance in
      case marathon status of
        None \<Rightarrow> Inr True
      | Some m \<Rightarrow>
          (case git_sha status of
             None \<Rightarrow> Inl TypeError
           | Some observed \<Rightarrow>
               Inr (prefix observed sha \<and>
                    app_count m = Some 1 \<and>
                    deploy_status m = Some ''Running'' \<and>
                    expected_instance_count m = running_instance_count m)))"

subsection \<open>String helpers of Python\<close>

text \<open>
  \<^verbatim>\<open>s.split('\n')\<close>: the pieces of \<open>s\<close> between newline characters. There is always
  one piece more than there are newlines, so the empty string gives one empty piece
  and a trailing newline gives a last empty piece.
\<close>

definition newline :: char where
  "newline = CHR 0x0A"

fun split_newline :: "string \<Rightarrow> string list" where
  "split_newline [] = [[]]"
| "split_newline (c # cs) =
     (if c = newline then [] # split_newline cs
      else (case split_newline cs of
              [] \<Rightarrow> [[c]]
            | l # ls \<Rightarrow> (c # l) # ls))"

text \<open>\<^verbatim>\<open>'\n'.join(lines)\<close>, used to state that the split loses nothing.\<close>

fun join_newline :: "string list \<Rightarrow> string" where
  "join_newline [] = []"
| "join_newline [l] = l"
| "join_newline (l # ls) = l @ newline # join_newline ls"

text \<open>\<^verbatim>\<open>str(n)\<close> for an integer, as \<^verbatim>\<open>'{0}'.format(n)\<close> prints it.\<close>

fun str_nat :: "nat \<Rightarrow> string" where
  "str_nat n =
     (if n < 10 then [''0123456789'' ! n]
      else str_nat (n div 10) @ [''0123456789'' ! (n mod 10)])"

definition str_int :: "int \<Rightarrow> string" where
  "str_int i = (if i < 0 then CHR ''-'' # str_nat (nat (- i)) else str_nat (nat i))"

subsection \<open>mark_for_deployment\<close>

text \<open>
  \<^verbatim>\<open>
  def mark_for_deployment(git_url, deploy_group, service, commit):
      tag = get_paasta_tag_from_deploy_group(identifier=deploy_group, desired_state='deploy')
      remote_tag = format_tag(tag)
      ref_mutator = remote_git.make_force_push_mutate_refs_func(targets=[remote_tag], sha=commit)
      try:
          remote_git.create_remote_refs(git_url=git_url, ref_mutator=ref_mutator, force=True)
      except Exception as e:
          loglines = ["Failed to mark %s in for deployment in deploy group %s!" % (commit, deploy_group)]
          for line in str(e).split('\n'):
              loglines.append(line)
          return_code = 1
      else:
          loglines = ["Marked %s in for deployment in deploy group %s" % (commit, deploy_group)]
          return_code = 0
      for logline in loglines:
          _log(service=service, line=logline, component='deploy', level='event')
      return return_code
  \<close>
  The push is the only call inside the \<^verbatim>\<open>try\<close>, and \<^verbatim>\<open>except Exception\<close> takes
  every exception it raises; the function has no \<^verbatim>\<open>raise\<close> of its own, so its
  result is the return code together with the effects.
\<close>

definition mark_for_deployment ::
  "env \<Rightarrow> string \<Rightarrow> string \<Rightarrow> string \<Rightarrow> string \<Rightarrow> int \<times> effect list" where
  "mark_for_deployment e git_url deploy_group service commit =
     (let tag = get_paasta_tag_from_deploy_group e deploy_group ''deploy'';
          remote_tag = format_tag e tag;
          (loglines, return_code) =
            (case create_remote_refs e git_url [remote_tag] commit of
               Some msg \<Rightarrow>
                 ((''Failed to mark '' @ commit @ '' in for deployment in deploy group '' @
                     deploy_group @ ''!'') # split_newline msg, 1::int)
             | None \<Rightarrow>
                 ([''Marked '' @ commit @ '' in for deployment in deploy group '' @
                     deploy_group], 0))
      in (return_code,
          CreateRemoteRefs git_url [remote_tag] commit # map (Log service) loglines))"

subsection \<open>wait_for_deployment\<close>

text \<open>
  \<^verbatim>\<open>
  def wait_for_deployment(service, deploy_group, git_sha, soa_dir, timeout):
      instances = api.service.list_instances(service=service,
                                             deploy_group=deploy_group).result()['instances']
      if not instances:
          _log(service=service,
               line="Couldn't find any instances for service {0} in deploy group {1}".format(
                   service, deploy_group), ...)
          raise NoInstancesFound
      try:
          with Timeout(seconds=timeout):
              while True:
                  if all([is_instance_deployed(service, instance, git_sha) for instance in instances]):
                      break
                  time.sleep(10)
      except TimeoutError:
          _log(service=service, line="Timed out after {0} seconds, waiting for {1} in {2} ...".format(
                   timeout, deploy_group, service), ...)
          raise
  \<close>
\<close>

text \<open>
  Modelled from the spec: the \<^verbatim>\<open>Timeout\<close> context manager of \<^verbatim>\<open>paasta_tools.utils\<close> is
  not among the sources. The loop has no check of the elapsed time of its own, so
  the deadline reaches it only as a \<^verbatim>\<open>TimeoutError\<close> that the context manager raises
  inside the \<^verbatim>\<open>with\<close> block, while the loop is in one of its blocking operations (a
  status query or \<^verbatim>\<open>time.sleep(10)\<close>). \<open>alarm e seconds\<close> is the number of blocking
  operations of the loop that run to completion before the alarm of
  \<^verbatim>\<open>Timeout(seconds=seconds)\<close> goes off; the operation after them is cut short by
  \<^verbatim>\<open>TimeoutError\<close>. How many operations fit into \<open>seconds\<close> of wall-clock time is a
  fact of the outside world. The effects record the operations that completed.
\<close>

text \<open>
  The list comprehension \<^verbatim>\<open>[is_instance_deployed(service, instance, git_sha) for
  instance in instances]\<close> of round \<open>k\<close>, started with \<open>b\<close> operations left before
  the alarm. The list is built in full before \<^verbatim>\<open>all\<close> reads it; an exception of
  one call ends the comprehension there. The result carries the operations left.
\<close>

fun deployed_list ::
  "env \<Rightarrow> nat \<Rightarrow> string \<Rightarrow> string \<Rightarrow> string list \<Rightarrow> nat \<Rightarrow> (error + bool list) \<times> effect list \<times> nat" where
  "deployed_list e k service sha [] b = (Inr [], [], b)"
| "deployed_list e k service sha (instance # instances) 0 = (Inl TimeoutError, [], 0)"
| "deployed_list e k service sha (instance # instances) (Suc b) =
     (case is_instance_deployed e k service instance sha of
        Inl err \<Rightarrow> (Inl err, [StatusInstance service instance], b)
      | Inr r \<Rightarrow>
          (case deployed_list e k service sha instances b of
             (Inl err, tr, b') \<Rightarrow> (Inl err, StatusInstance service instance # tr, b')
           | (Inr rs, tr, b') \<Rightarrow> (Inr (r # rs), StatusInstance service instance # tr, b')))"

lemma deployed_list_budget:
  "deployed_list e k service sha instances b = (r, tr, b') \<Longrightarrow> b' \<le> b"
proof (induction instances arbitrary: b r tr b')
  case Nil
  then show ?case by simp
next
  case (Cons i instances)
  show ?case
  proof (cases b)
    case 0
    with Cons.prems show ?thesis by simp
  next
    case (Suc n)
    obtain r1 tr1 b1 where rest: "deployed_list e k service sha instances n = (r1, tr1, b1)"
      by (cases "deployed_list e k service sha instances n") auto
    from Cons.IH [OF rest] have "b1 \<le> n" .
    with Cons.prems Suc rest show ?thesis
      by (auto split: sum.splits)
  qed
qed

text \<open>
  The \<^verbatim>\<open>while True\<close> loop under \<^verbatim>\<open>with Timeout(seconds=timeout)\<close>, from round \<open>k\<close>
  on with \<open>b\<close> operations left before the alarm. \<^verbatim>\<open>all(...)\<close> of the round's list
  ends the loop; otherwise \<^verbatim>\<open>time.sleep(10)\<close> is the next blocking operation.
\<close>

function wait_loop ::
  "env \<Rightarrow> string \<Rightarrow> string list \<Rightarrow> string \<Rightarrow> nat \<Rightarrow> nat \<Rightarrow> (error + unit) \<times> effect list" where
  "wait_loop e service instances sha b k =
     (case deployed_list e k service sha instances b of
        (Inl err, tr, b') \<Rightarrow> (Inl err, tr)
      | (Inr rs, tr, b') \<Rightarrow>
          if list_all (\<lambda>r. r) rs then (Inr (), tr)
          else (case b' of
                  0 \<Rightarrow> (Inl TimeoutError, tr)
                | Suc b'' \<Rightarrow>
                    (case wait_loop e service instances sha b'' (Suc k) of
                       (res, tr') \<Rightarrow> (res, tr @ Sleep 10 # tr'))))"
  by pat_completeness auto
termination
  apply (relation "measure (\<lambda>(e, service, instances, sha, b, k). b)")
   apply simp
  apply (auto dest!: deployed_list_budget [OF sym])
  done

definition wait_for_deployment ::
  "env \<Rightarrow> string \<Rightarrow> string \<Rightarrow> string \<Rightarrow> string \<Rightarrow> int \<Rightarrow> (error + unit) \<times> effect list" where
  "wait_for_deployment e service deploy_group sha soa_dir timeout =
     (let instances = list_instances e service deploy_group in
      if instances = [] then
        (Inl NoInstancesFound,
         [ListInstances service deploy_group,
          Log service (''Couldn't find any instances for service '' @ service @
                       '' in deploy group '' @ deploy_group)])
      else
        (case wait_loop e service instances sha (alarm e timeout) 0 of
           (res, tr) \<Rightarrow>
             if res = Inl TimeoutError then
               (Inl TimeoutError,
                ListInstances service deploy_group # tr @
                [Log service
                   (''Timed out after '' @ str_int timeout @ '' seconds, waiting for '' @
                    deploy_group @ '' in '' @ service @ '' to be deployed by PaaSTA. '' @
                    ''Try running 'paasta status -s '' @ service @
                    '' -v' to determine the cause. If the service is slow '' @
                    ''to start you may wish to increase the timeout'')])
             else (res, ListInstances service deploy_group # tr)))"

subsection \<open>paasta_mark_for_deployment\<close>

text \<open>
  The parsed command line (\<^verbatim>\<open>args.git_url\<close>, \<^verbatim>\<open>args.commit\<close>, ...); the fields carry
  the prefix \<open>arg_\<close> to keep them apart from the parameters of the functions above.
\<close>

record args =
  arg_git_url :: string
  arg_commit :: string
  arg_deploy_group :: string
  arg_service :: string
  arg_block :: bool
  arg_timeout :: int
  arg_soa_dir :: string

text \<open>
  \<^verbatim>\<open>
  def paasta_mark_for_deployment(args):
      deploy_group = args.deploy_group
      service = args.service
      if service and service.startswith('services-'):
          service = service.split('services-', 1)[1]
      validate_service_name(service, soa_dir=args.soa_dir)
      ret = mark_for_deployment(git_url=args.git_url, deploy_group=deploy_group,
                                service=service, commit=args.commit)
      if args.block:
          try:
              _log(service=service, line="Waiting for deployment of {0} to {1} complete".format(
                       args.commit, deploy_group), ...)
              wait_for_deployment(args.service, args.deploy_group,
                                  args.commit, args.soa_dir, args.timeout)
              _log(service=service, line="Deployment of {0} to {1} complete".format(
                       args.commit, deploy_group), ...)
          except TimeoutError:
              sys.exit(1)
      return ret
  \<close>
  Under the guard \<^verbatim>\<open>service.startswith('services-')\<close> the first occurrence of the
  separator is at index 0, so \<^verbatim>\<open>service.split('services-', 1)[1]\<close> is the string
  without its first nine characters. Only \<^verbatim>\<open>TimeoutError\<close> is caught; any other
  exception of the wait leaves the wrapper as it is.
\<close>

definition strip_services :: "string \<Rightarrow> string" where
  "strip_services service =
     (if service \<noteq> [] \<and> prefix ''services-'' service
      then drop (length ''services-'') service
      else service)"

definition paasta_mark_for_deployment :: "env \<Rightarrow> args \<Rightarrow> (error + int) \<times> effect list" where
  "paasta_mark_for_deployment e a =
     (let deploy_group = arg_deploy_group a;
          service = strip_services (arg_service a)
      in if \<not> validate_service_name e service (arg_soa_dir a) then
           (Inl ValidationError, [ValidateServiceName service (arg_soa_dir a)])
         else
           (case mark_for_deployment e (arg_git_url a) deploy_group service (arg_commit a) of
              (ret, tr1) \<Rightarrow>
                if arg_block a then
                  (case wait_for_deployment e (arg_service a) (arg_deploy_group a)
                          (arg_commit a) (arg_soa_dir a) (arg_timeout a) of
                     (res, tr2) \<Rightarrow>
                       (let tr = ValidateServiceName service (arg_soa_dir a) # tr1 @
                                 Log service (''Waiting for deployment of '' @ arg_commit a @
                                              '' to '' @ deploy_group @ '' complete'') # tr2
                        in case res of
                             Inr u \<Rightarrow>
                               (Inr ret,
                                tr @ [Log service (''Deployment of '' @ arg_commit a @
                                                   '' to '' @ deploy_group @ '' complete'')])
                           | Inl err \<Rightarrow>
                               if err = TimeoutError then (Inl (SystemExit 1), tr)
                               else (Inl err, tr)))
                else (Inr ret, ValidateServiceName service (arg_soa_dir a) # tr1)))"

subsection \<open>Reading a trace of effects\<close>

text \<open>
  The observations the properties below are stated on: the events logged (service and
  line), the service names given to the validator, and the service names given to the
  API (\<^verbatim>\<open>list_instances\<close> and \<^verbatim>\<open>status_instance\<close>), each in program order.
\<close>

fun logged :: "effect list \<Rightarrow> (string \<times> string) list" where
  "logged [] = []"
| "logged (Log service line # tr) = (service, line) # logged tr"
| "logged (x # tr) = logged tr"

fun validated_services :: "effect list \<Rightarrow> string list" where
  "validated_services [] = []"
| "validated_services (ValidateServiceName service soa_dir # tr) = service # validated_services tr"
| "validated_services (x # tr) = validated_services tr"

fun queried_services :: "effect list \<Rightarrow> string list" where
  "queried_services [] = []"
| "queried_services (ListInstances service deploy_group # tr) = service # queried_services tr"
| "queried_services (StatusInstance service instance # tr) = service # queried_services tr"
| "queried_services (x # tr) = queried_services tr"

section \<open>Reconciling the autoscaler and the disruption budget\<close>

text \<open>
  The reconciler lives in \<^verbatim>\<open>paasta_tools/kubernetes/application/controller_wrappers.py\<close>,
  which is not among the sources; \<^verbatim>\<open>tests/kubernetes/application/test_controller_wrapper.py\<close>
  is. The two operations are modelled from the specification, with the calls named
  after the client methods the tests assert on.
\<close>

datatype autoscaling_policy = Absent | Managed | Bespoke

text \<open>
  \<open>CreateHpa namespace body\<close>, \<open>PatchHpa namespace name body\<close> and \<open>DeleteHpa\<close> are
  \<^verbatim>\<open>create_namespaced_horizontal_pod_autoscaler\<close>,
  \<^verbatim>\<open>patch_namespaced_horizontal_pod_autoscaler\<close> and
  \<^verbatim>\<open>delete_horizontal_pod_autoscaler\<close>.
\<close>

datatype 'spec hpa_call =
    CreateHpa string 'spec
  | PatchHpa string string 'spec
  | DeleteHpa

text \<open>
  Modelled from the spec: \<^verbatim>\<open>Application.sync_horizontal_pod_autoscaler\<close> is missing from
  the sources. The specification: with the policy "bespoke" take no action whatever
  the live state; with no autoscaling requested delete a live autoscaler and do
  nothing otherwise; with managed autoscaling create the autoscaler with the computed
  spec when none is live and patch the live one with the computed spec otherwise.
  \<open>exists_hpa\<close> says whether a live autoscaler exists, \<open>body\<close> is the computed spec,
  \<open>name\<close> and \<open>namespace\<close> are those of the workload's metadata.
\<close>

definition sync_horizontal_pod_autoscaler ::
  "autoscaling_policy \<Rightarrow> bool \<Rightarrow> string \<Rightarrow> string \<Rightarrow> 'spec \<Rightarrow> 'spec hpa_call list" where
  "sync_horizontal_pod_autoscaler policy exists_hpa name namespace body =
     (if policy = Bespoke then []
      else if policy = Absent then (if exists_hpa then [DeleteHpa] else [])
      else if \<not> exists_hpa then [CreateHpa namespace body]
      else [PatchHpa namespace name body])"

text \<open>
  What reading the live disruption budget gives: the live resource, or an
  \<^verbatim>\<open>ApiException\<close> with its HTTP status (404 is "not found").
\<close>

datatype 'pdr pdr_read = Live 'pdr | ApiException int

datatype 'pdr pdr_call =
    CreatePdr 'pdr
  | PatchPdr 'pdr

datatype reconcile_error = ReconciliationFetchError int

text \<open>
  Modelled from the spec: \<^verbatim>\<open>Application.ensure_pod_disruption_budget\<close> is missing from the
  sources. The specification: read the live disruption budget; "not found" means that
  none exists, and it is created with the computed spec; a live one is patched with
  the computed spec, with no comparison of the two; any other failure of the read is
  fatal to the reconciliation of this resource. \<open>pdr\<close> is the computed budget (it
  carries the computed max-unavailable), \<open>existing\<close> the outcome of the read.
\<close>

definition ensure_pod_disruption_budget ::
  "'pdr \<Rightarrow> 'pdr pdr_read \<Rightarrow> reconcile_error + 'pdr pdr_call list" where
  "ensure_pod_disruption_budget pdr existing =
     (case existing of
        ApiException status \<Rightarrow>
          if status = 404 then Inr [CreatePdr pdr]
          else Inl (ReconciliationFetchError status)
      | Live existing_pdr \<Rightarrow> Inr [PatchPdr pdr])"

section \<open>Example worlds\<close>

text \<open>
  A status of a converged instance and a world around it; the examples below vary one
  field at a time.
\<close>

definition demo_marathon :: marathon_status where
  "demo_marathon =
     \<lparr>app_count = Some 1, deploy_status = Some ''Running'',
      expected_instance_count = Some 3, running_instance_count = Some 3\<rparr>"

definition demo_status :: instance_status where
  "demo_status = \<lparr>git_sha = Some ''abc1234'', marathon = Some demo_marathon\<rparr>"

definition demo_env :: env where
  "demo_env =
     \<lparr>get_paasta_tag_from_deploy_group =
        (\<lambda>identifier desired_state. ''paasta-'' @ identifier @ ''-'' @ desired_state),
      format_tag = (\<lambda>tag. ''refs/tags/'' @ tag),
      create_remote_refs = (\<lambda>git_url targets sha. None),
      validate_service_name = (\<lambda>service soa_dir. True),
      list_instances = (\<lambda>service deploy_group. [''main'']),
      status_instance = (\<lambda>k service instance. demo_status),
      alarm = (\<lambda>seconds. 5)\<rparr>"

definition demo_args :: args where
  "demo_args =
     \<lparr>arg_git_url = ''git@example.com:services/web'',
      arg_commit = ''abc1234def567'',
      arg_deploy_group = ''prod.main'',
      arg_service = ''services-web'',
      arg_block = True,
      arg_timeout = 1200,
      arg_soa_dir = ''/nail/etc/services''\<rparr>"

text \<open>A world whose git remote rejects the push with a two-line message.\<close>

definition rejecting_env :: env where
  "rejecting_env =
     demo_env\<lparr>create_remote_refs :=
       \<lambda>git_url targets sha. Some (''fatal: auth failed'' @ newline # ''remote: denied'')\<rparr>"

text \<open>A world whose git remote rejects the push with one line that ends in a newline.\<close>

definition trailing_env :: env where
  "trailing_env =
     demo_env\<lparr>create_remote_refs :=
       \<lambda>git_url targets sha. Some (''error: failed'' @ [newline])\<rparr>"

text \<open>A world in which no deploy group has an instance.\<close>

definition empty_env :: env where
  "empty_env = demo_env\<lparr>list_instances := \<lambda>service deploy_group. []\<rparr>"

section \<open>Properties\<close>

subsection \<open>Auxiliary facts\<close>

lemma split_newline_not_Nil: "split_newline s \<noteq> []"
  by (induction s) (auto split: list.splits)

lemma length_split_newline: "length (split_newline s) = Suc (count_list s newline)"
  by (induction s) (auto split: list.splits simp: split_newline_not_Nil)

lemma join_newline_Cons: "ls \<noteq> [] \<Longrightarrow> join_newline (l # ls) = l @ newline # join_newline ls"
  by (cases ls) auto

lemma join_split_newline: "join_newline (split_newline s) = s"
proof (induction s)
  case Nil
  show ?case by simp
next
  case (Cons c s)
  obtain l ls where sp: "split_newline s = l # ls"
    using split_newline_not_Nil [of s] by (cases "split_newline s") auto
  show ?case
  proof (cases "c = newline")
    case True
    with Cons sp show ?thesis by (simp add: join_newline_Cons)
  next
    case False
    with Cons sp show ?thesis by (cases ls) auto
  qed
qed

lemma split_newline_pieces: "l \<in> set (split_newline s) \<Longrightarrow> newline \<notin> set l"
  by (induction s arbitrary: l) (auto split: list.splits if_splits)

lemma logged_append: "logged (xs @ ys) = logged xs @ logged ys"
  by (induction xs rule: logged.induct) auto

lemma logged_map_Log: "logged (map (Log service) ls) = map (Pair service) ls"
  by (induction ls) auto

lemma validated_services_append:
  "validated_services (xs @ ys) = validated_services xs @ validated_services ys"
  by (induction xs rule: validated_services.induct) auto

lemma queried_services_append:
  "queried_services (xs @ ys) = queried_services xs @ queried_services ys"
  by (induction xs rule: queried_services.induct) auto

lemma validated_services_map_Log: "validated_services (map (Log service) ls) = []"
  by (induction ls) auto

lemma queried_services_map_Log: "queried_services (map (Log service) ls) = []"
  by (induction ls) auto

lemma deployed_list_trace:
  "deployed_list e k service sha instances b = (r, tr, b') \<Longrightarrow>
   set (queried_services tr) \<subseteq> {service} \<and> validated_services tr = [] \<and> logged tr = []"
proof (induction instances arbitrary: b r tr b')
  case Nil
  then show ?case by auto
next
  case (Cons i instances)
  show ?case
  proof (cases b)
    case 0
    with Cons.prems show ?thesis by auto
  next
    case (Suc n)
    obtain r1 tr1 b1 where rest: "deployed_list e k service sha instances n = (r1, tr1, b1)"
      by (cases "deployed_list e k service sha instances n") auto
    note ih = Cons.IH [OF rest]
    from Cons.prems Suc rest ih show ?thesis
      by (auto split: sum.splits)
  qed
qed

lemma wait_loop_trace:
  "wait_loop e service instances sha b k = (res, tr) \<Longrightarrow>
   set (queried_services tr) \<subseteq> {service} \<and> validated_services tr = []"
proof (induction e service instances sha b k arbitrary: res tr rule: wait_loop.induct)
  case (1 e service instances sha b k)
  obtain r trd b' where d: "deployed_list e k service sha instances b = (r, trd, b')"
    by (cases "deployed_list e k service sha instances b") auto
  note dt = deployed_list_trace [OF d]
  show ?case
  proof (cases r)
    case (Inl err)
    with "1.prems" d dt show ?thesis by (simp add: wait_loop.simps [of e service instances sha b k])
  next
    case (Inr rs)
    show ?thesis
    proof (cases "list_all (\<lambda>r. r) rs")
      case True
      with "1.prems" d dt Inr show ?thesis
        by (simp add: wait_loop.simps [of e service instances sha b k])
    next
      case False
      show ?thesis
      proof (cases b')
        case 0
        with "1.prems" d dt Inr False show ?thesis
          by (simp add: wait_loop.simps [of e service instances sha b k])
      next
        case (Suc b'')
        obtain res2 tr2 where w: "wait_loop e service instances sha b'' (Suc k) = (res2, tr2)"
          by (cases "wait_loop e service instances sha b'' (Suc k)") auto
        have ih: "set (queried_services tr2) \<subseteq> {service} \<and> validated_services tr2 = []"
          using "1.IH" [OF d [symmetric] Inr refl False Suc w] .
        from "1.prems" d Inr False Suc w have "tr = trd @ Sleep 10 # tr2"
          by (simp add: wait_loop.simps [of e service instances sha b k])
        with dt ih show ?thesis
          by (auto simp: queried_services_append validated_services_append)
      qed
    qed
  qed
qed

lemma wait_for_deployment_trace:
  assumes "wait_for_deployment e service deploy_group sha soa_dir timeout = (res, tr)"
  shows "set (queried_services tr) = {service} \<and> validated_services tr = []"
proof (cases "list_instances e service deploy_group = []")
  case True
  with assms show ?thesis by (auto simp: wait_for_deployment_def)
next
  case False
  obtain r2 tr2 where w:
    "wait_loop e service (list_instances e service deploy_group) sha (alarm e timeout) 0 = (r2, tr2)"
    by (cases "wait_loop e service (list_instances e service deploy_group) sha (alarm e timeout) 0") auto
  note wt = wait_loop_trace [OF w]
  from assms False w wt show ?thesis
    by (auto simp: wait_for_deployment_def Let_def queried_services_append
        validated_services_append split: if_splits)
qed

lemma strip_services_prefix:
  "prefix ''services-'' service \<Longrightarrow>
   strip_services service = drop 9 service \<and> strip_services service \<noteq> service"
proof -
  assume p: "prefix ''services-'' service"
  then obtain rest where s: "service = ''services-'' @ rest" by (auto simp: prefix_def)
  then have "length (drop 9 service) < length service" by simp
  then have "drop 9 service \<noteq> service" by (metis less_irrefl)
  with p s show ?thesis by (auto simp: strip_services_def)
qed

lemma mark_for_deployment_logged_service:
  "fst ` set (logged (snd (mark_for_deployment e git_url deploy_group service commit))) = {service}"
  by (auto simp: mark_for_deployment_def Let_def logged_map_Log image_image
      split: option.splits)

lemma deployed_list_results:
  assumes "deployed_list e k service sha instances b = (Inr rs, tr, b')"
  shows "map (\<lambda>i. is_instance_deployed e k service i sha) instances = map Inr rs"
  using assms
proof (induction instances arbitrary: b rs tr b')
  case Nil
  then show ?case by auto
next
  case (Cons i instances)
  show ?case
  proof (cases b)
    case 0
    with Cons.prems show ?thesis by simp
  next
    case (Suc n)
    obtain r1 tr1 b1 where rest: "deployed_list e k service sha instances n = (r1, tr1, b1)"
      by (cases "deployed_list e k service sha instances n") auto
    from Cons.prems Suc rest show ?thesis
      by (auto split: sum.splits dest: Cons.IH)
  qed
qed

lemma deployed_list_error:
  assumes "deployed_list e k service sha instances b = (Inl err, tr, b')"
    and "\<forall>i \<in> set instances. \<exists>r. is_instance_deployed e k service i sha = Inr r"
  shows "err = TimeoutError"
  using assms
proof (induction instances arbitrary: b tr b')
  case Nil
  then show ?case by auto
next
  case (Cons i instances)
  show ?case
  proof (cases b)
    case 0
    with Cons.prems show ?thesis by simp
  next
    case (Suc n)
    obtain r1 tr1 b1 where rest: "deployed_list e k service sha instances n = (r1, tr1, b1)"
      by (cases "deployed_list e k service sha instances n") auto
    from Cons.prems Suc rest show ?thesis
      by (auto split: sum.splits dest: Cons.IH)
  qed
qed

lemma wait_loop_never_ready:
  assumes "\<forall>k. \<forall>i \<in> set instances. \<exists>r. is_instance_deployed e k service i sha = Inr r"
    and "\<forall>k. \<exists>i \<in> set instances. is_instance_deployed e k service i sha = Inr False"
  shows "fst (wait_loop e service instances sha b k) = Inl TimeoutError \<and>
         logged (snd (wait_loop e service instances sha b k)) = []"
  using assms
proof (induction e service instances sha b k rule: wait_loop.induct)
  case (1 e service instances sha b k)
  obtain r trd b' where d: "deployed_list e k service sha instances b = (r, trd, b')"
    by (cases "deployed_list e k service sha instances b") auto
  note dt = deployed_list_trace [OF d]
  show ?case
  proof (cases r)
    case (Inl err)
    with d "1.prems"(1) have "err = TimeoutError"
      by (auto dest: deployed_list_error)
    with d dt Inl show ?thesis
      by (simp add: wait_loop.simps [of e service instances sha b k])
  next
    case (Inr rs)
    from "1.prems"(2) obtain i where i: "i \<in> set instances"
      "is_instance_deployed e k service i sha = Inr False" by blast
    from d Inr have "map (\<lambda>i. is_instance_deployed e k service i sha) instances = map Inr rs"
      by (auto dest: deployed_list_results)
    with i have "False \<in> set rs"
      by (metis (no_types, lifting) image_eqI image_set sum.inject(2) imageE)
    then have nall: "\<not> list_all (\<lambda>r. r) rs" by (auto simp: list_all_iff)
    show ?thesis
    proof (cases b')
      case 0
      with d dt Inr nall show ?thesis
        by (simp add: wait_loop.simps [of e service instances sha b k])
    next
      case (Suc b'')
      have ih: "fst (wait_loop e service instances sha b'' (Suc k)) = Inl TimeoutError \<and>
         logged (snd (wait_loop e service instances sha b'' (Suc k))) = []"
        using "1.IH" [OF d [symmetric] Inr refl nall Suc "1.prems"] .
      with d dt Inr nall Suc show ?thesis
        by (simp add: wait_loop.simps [of e service instances sha b k] split_beta logged_append)
    qed
  qed
qed

subsection \<open>Readiness of one instance\<close>

text \<open>
  C1 (amended). For an instance whose status carries workload-management data and an
  observed commit identifier, \<open>is_instance_deployed\<close> returns true if and only if all
  four conditions hold together: the observed commit is a prefix of the target commit
  (the test is \<^verbatim>\<open>git_sha.startswith(status.git_sha)\<close>, so it is the observed sha that
  may be the shorter one, not the caller's), exactly one live replica set exists, the
  deploy status is the literal "Running", and the expected replica count equals the
  running replica count (as \<^verbatim>\<open>==\<close> compares them: two absent counts are equal). The
  result is the conjunction of the four conditions, so it is false, without an error,
  as soon as any single one of them fails.
\<close>

theorem is_instance_deployed_iff:
  assumes "marathon (status_instance e k service instance) = Some m"
    and "git_sha (status_instance e k service instance) = Some observed"
  shows "is_instance_deployed e k service instance sha =
           Inr (prefix observed sha \<and>
                app_count m = Some 1 \<and>
                deploy_status m = Some ''Running'' \<and>
                expected_instance_count m = running_instance_count m)
         \<and>
         (is_instance_deployed e k service instance sha = Inr True) =
           (prefix observed sha \<and>
            app_count m = Some 1 \<and>
            deploy_status m = Some ''Running'' \<and>
            expected_instance_count m = running_instance_count m)
         \<and>
         (is_instance_deployed e k service instance sha = Inr False) =
           (\<not> prefix observed sha \<or>
            app_count m \<noteq> Some 1 \<or>
            deploy_status m \<noteq> Some ''Running'' \<or>
            expected_instance_count m \<noteq> running_instance_count m)"
  using assms by (auto simp: is_instance_deployed_def)

text \<open>
  The converged instance of the example world is ready for a target commit that the
  observed sha \<^verbatim>\<open>abc1234\<close> starts. Flipping one condition at a time (another target
  commit, two replica sets, the status "Deploying", two running replicas against three
  expected) gives false each time.
\<close>

theorem is_instance_deployed_iff_witness:
  "marathon (status_instance demo_env 0 ''web'' ''main'') = Some demo_marathon \<and>
   git_sha (status_instance demo_env 0 ''web'' ''main'') = Some ''abc1234'' \<and>
   is_instance_deployed demo_env 0 ''web'' ''main'' ''abc1234def567'' = Inr True \<and>
   is_instance_deployed demo_env 0 ''web'' ''main'' ''abd1234def567'' = Inr False \<and>
   is_instance_deployed
     (demo_env\<lparr>status_instance := \<lambda>k service instance.
        demo_status\<lparr>marathon := Some (demo_marathon\<lparr>app_count := Some 2\<rparr>)\<rparr>\<rparr>)
     0 ''web'' ''main'' ''abc1234def567'' = Inr False \<and>
   is_instance_deployed
     (demo_env\<lparr>status_instance := \<lambda>k service instance.
        demo_status\<lparr>marathon := Some (demo_marathon\<lparr>deploy_status := Some ''Deploying''\<rparr>)\<rparr>\<rparr>)
     0 ''web'' ''main'' ''abc1234def567'' = Inr False \<and>
   is_instance_deployed
     (demo_env\<lparr>status_instance := \<lambda>k service instance.
        demo_status\<lparr>marathon := Some (demo_marathon\<lparr>running_instance_count := Some 2\<rparr>)\<rparr>\<rparr>)
     0 ''web'' ''main'' ''abc1234def567'' = Inr False"
proof -
  let ?e1 = "demo_env\<lparr>status_instance := \<lambda>k service instance.
        demo_status\<lparr>marathon := Some (demo_marathon\<lparr>app_count := Some 2\<rparr>)\<rparr>\<rparr>"
  let ?e2 = "demo_env\<lparr>status_instance := \<lambda>k service instance.
        demo_status\<lparr>marathon := Some (demo_marathon\<lparr>deploy_status := Some ''Deploying''\<rparr>)\<rparr>\<rparr>"
  let ?e3 = "demo_env\<lparr>status_instance := \<lambda>k service instance.
        demo_status\<lparr>marathon := Some (demo_marathon\<lparr>running_instance_count := Some 2\<rparr>)\<rparr>\<rparr>"
  have m: "marathon (status_instance demo_env 0 ''web'' ''main'') = Some demo_marathon"
    by (simp add: demo_env_def demo_status_def)
  have g: "git_sha (status_instance demo_env 0 ''web'' ''main'') = Some ''abc1234''"
    by (simp add: demo_env_def demo_status_def)
  have m1: "marathon (status_instance ?e1 0 ''web'' ''main'') =
              Some (demo_marathon\<lparr>app_count := Some 2\<rparr>)"
    by simp
  have m2: "marathon (status_instance ?e2 0 ''web'' ''main'') =
              Some (demo_marathon\<lparr>deploy_status := Some ''Deploying''\<rparr>)"
    by simp
  have m3: "marathon (status_instance ?e3 0 ''web'' ''main'') =
              Some (demo_marathon\<lparr>running_instance_count := Some 2\<rparr>)"
    by simp
  have g1: "git_sha (status_instance ?e1 0 ''web'' ''main'') = Some ''abc1234''"
    by (simp add: demo_status_def)
  have g2: "git_sha (status_instance ?e2 0 ''web'' ''main'') = Some ''abc1234''"
    by (simp add: demo_status_def)
  have g3: "git_sha (status_instance ?e3 0 ''web'' ''main'') = Some ''abc1234''"
    by (simp add: demo_status_def)
  from is_instance_deployed_iff [OF m g, of "''abc1234def567''"]
  have a: "is_instance_deployed demo_env 0 ''web'' ''main'' ''abc1234def567'' = Inr True"
    by (simp add: demo_marathon_def)
  from is_instance_deployed_iff [OF m g, of "''abd1234def567''"]
  have b: "is_instance_deployed demo_env 0 ''web'' ''main'' ''abd1234def567'' = Inr False"
    by (simp add: demo_marathon_def)
  from is_instance_deployed_iff [OF m1 g1, of "''abc1234def567''"]
  have c: "is_instance_deployed ?e1 0 ''web'' ''main'' ''abc1234def567'' = Inr False"
    by (simp add: demo_marathon_def)
  from is_instance_deployed_iff [OF m2 g2, of "''abc1234def567''"]
  have d: "is_instance_deployed ?e2 0 ''web'' ''main'' ''abc1234def567'' = Inr False"
    by (simp add: demo_marathon_def)
  from is_instance_deployed_iff [OF m3 g3, of "''abc1234def567''"]
  have f: "is_instance_deployed ?e3 0 ''web'' ''main'' ''abc1234def567'' = Inr False"
    by (simp add: demo_marathon_def)
  from m g a b c d f show ?thesis by simp
qed

text \<open>
  A caller that passes the short sha \<^verbatim>\<open>abc1234\<close> while the instance reports the full
  sha \<^verbatim>\<open>abc1234def567\<close> is told "not ready", although the caller's sha is a prefix of
  the observed one and the other three conditions hold: the prefix test does not
  allow for short-sha callers.
\<close>

theorem short_sha_caller_not_ready:
  "prefix ''abc1234'' ''abc1234def567'' \<and>
   is_instance_deployed
     (demo_env\<lparr>status_instance :=
        \<lambda>k service instance. demo_status\<lparr>git_sha := Some ''abc1234def567''\<rparr>\<rparr>)
     0 ''web'' ''main'' ''abc1234'' = Inr False"
  by (simp add: is_instance_deployed_def demo_env_def demo_status_def demo_marathon_def)

text \<open>
  C8 (amended). For an instance whose status carries workload-management data and an
  observed commit identifier, a missing replica-set count, a missing deploy status, or
  a replica count that is missing on one side only gives a non-ready (false) result,
  not an error.
\<close>

theorem partial_status_not_ready:
  assumes "marathon (status_instance e k service instance) = Some m"
    and "git_sha (status_instance e k service instance) = Some observed"
    and "app_count m = None \<or> deploy_status m = None \<or>
         (expected_instance_count m = None) \<noteq> (running_instance_count m = None)"
  shows "is_instance_deployed e k service instance sha = Inr False"
  using assms by (auto simp: is_instance_deployed_def)

theorem partial_status_not_ready_witness:
  "is_instance_deployed
     (demo_env\<lparr>status_instance := \<lambda>k service instance.
        demo_status\<lparr>marathon := Some (demo_marathon\<lparr>app_count := None\<rparr>)\<rparr>\<rparr>)
     0 ''web'' ''main'' ''abc1234def567'' = Inr False \<and>
   is_instance_deployed
     (demo_env\<lparr>status_instance := \<lambda>k service instance.
        demo_status\<lparr>marathon := Some (demo_marathon\<lparr>running_instance_count := None\<rparr>)\<rparr>\<rparr>)
     0 ''web'' ''main'' ''abc1234def567'' = Inr False"
proof -
  let ?e1 = "demo_env\<lparr>status_instance := \<lambda>k service instance.
        demo_status\<lparr>marathon := Some (demo_marathon\<lparr>app_count := None\<rparr>)\<rparr>\<rparr>"
  let ?e2 = "demo_env\<lparr>status_instance := \<lambda>k service instance.
        demo_status\<lparr>marathon := Some (demo_marathon\<lparr>running_instance_count := None\<rparr>)\<rparr>\<rparr>"
  have m1: "marathon (status_instance ?e1 0 ''web'' ''main'') =
              Some (demo_marathon\<lparr>app_count := None\<rparr>)"
    by simp
  have m2: "marathon (status_instance ?e2 0 ''web'' ''main'') =
              Some (demo_marathon\<lparr>running_instance_count := None\<rparr>)"
    by simp
  have g1: "git_sha (status_instance ?e1 0 ''web'' ''main'') = Some ''abc1234''"
    by (simp add: demo_status_def)
  have g2: "git_sha (status_instance ?e2 0 ''web'' ''main'') = Some ''abc1234''"
    by (simp add: demo_status_def)
  have c1: "app_count (demo_marathon\<lparr>app_count := None\<rparr>) = None \<or>
            deploy_status (demo_marathon\<lparr>app_count := None\<rparr>) = None \<or>
            (expected_instance_count (demo_marathon\<lparr>app_count := None\<rparr>) = None) \<noteq>
            (running_instance_count (demo_marathon\<lparr>app_count := None\<rparr>) = None)"
    by simp
  have c2: "app_count (demo_marathon\<lparr>running_instance_count := None\<rparr>) = None \<or>
            deploy_status (demo_marathon\<lparr>running_instance_count := None\<rparr>) = None \<or>
            (expected_instance_count (demo_marathon\<lparr>running_instance_count := None\<rparr>) = None) \<noteq>
            (running_instance_count (demo_marathon\<lparr>running_instance_count := None\<rparr>) = None)"
    by (simp add: demo_marathon_def)
  from partial_status_not_ready [OF m1 g1 c1] partial_status_not_ready [OF m2 g2 c2]
  show ?thesis by simp
qed

text \<open>
  With the observed commit identifier missing the call raises \<^verbatim>\<open>TypeError\<close>; with both
  replica counts missing (and the other three conditions true) the instance is ready.
\<close>

theorem missing_field_raises_or_ready:
  "is_instance_deployed
     (demo_env\<lparr>status_instance :=
        \<lambda>k service instance. demo_status\<lparr>git_sha := None\<rparr>\<rparr>)
     0 ''web'' ''main'' ''abc1234def567'' = Inl TypeError \<and>
   is_instance_deployed
     (demo_env\<lparr>status_instance :=
        \<lambda>k service instance. demo_status\<lparr>marathon := Some (demo_marathon
          \<lparr>expected_instance_count := None, running_instance_count := None\<rparr>)\<rparr>\<rparr>)
     0 ''web'' ''main'' ''abc1234def567'' = Inr True"
  by (simp add: is_instance_deployed_def demo_env_def demo_status_def demo_marathon_def)

text \<open>
  C9. For an instance whose status has no workload-management data
  (\<^verbatim>\<open>status.marathon\<close> is \<^verbatim>\<open>None\<close>), \<open>is_instance_deployed\<close> returns true whatever the
  other fields and the target commit are.
\<close>

theorem unmanaged_instance_ready:
  "marathon (status_instance e k service instance) = None \<Longrightarrow>
   is_instance_deployed e k service instance sha = Inr True"
  by (simp add: is_instance_deployed_def)

theorem unmanaged_instance_ready_witness:
  "marathon (status_instance
      (demo_env\<lparr>status_instance :=
         \<lambda>k service instance. \<lparr>git_sha = None, marathon = None\<rparr>\<rparr>) 0 ''web'' ''main'') = None \<and>
   is_instance_deployed
      (demo_env\<lparr>status_instance :=
         \<lambda>k service instance. \<lparr>git_sha = None, marathon = None\<rparr>\<rparr>) 0 ''web'' ''main''
      ''abc1234def567'' = Inr True"
proof -
  let ?e = "demo_env\<lparr>status_instance :=
         \<lambda>k service instance. \<lparr>git_sha = None, marathon = None\<rparr>\<rparr>"
  have h: "marathon (status_instance ?e 0 ''web'' ''main'') = None" by simp
  from h unmanaged_instance_ready [OF h, of "''abc1234def567''"] show ?thesis by simp
qed

subsection \<open>Signalling\<close>

text \<open>
  C7 (amended). \<open>mark_for_deployment\<close> returns, whether the push returns or raises an
  \<^verbatim>\<open>Exception\<close>: the push is the only fallible call, it sits in the \<^verbatim>\<open>try\<close>, and
  \<^verbatim>\<open>except Exception\<close> takes what it raises, so the result is a return code and the
  effects. When the push succeeds the return code is 0 and exactly one event line is
  emitted. When the push raises with message \<open>msg\<close> the return code is the integer 1,
  the same for every cause: the cause is carried by the events only. The events are
  the header line followed by one line per piece of \<^verbatim>\<open>msg.split('\n')\<close>: one more piece
  than \<open>msg\<close> has newlines (so a message that ends in a newline gives a last, empty
  line), no piece holds a newline, and the pieces joined by newlines give \<open>msg\<close> back,
  so a multi-line cause stays multi-line in the events.
\<close>

theorem mark_for_deployment_result:
  "(create_remote_refs e git_url
      [format_tag e (get_paasta_tag_from_deploy_group e deploy_group ''deploy'')] commit = None \<longrightarrow>
      fst (mark_for_deployment e git_url deploy_group service commit) = 0 \<and>
      logged (snd (mark_for_deployment e git_url deploy_group service commit)) =
        [(service, ''Marked '' @ commit @ '' in for deployment in deploy group '' @ deploy_group)])
   \<and>
   (\<forall>msg. create_remote_refs e git_url
      [format_tag e (get_paasta_tag_from_deploy_group e deploy_group ''deploy'')] commit = Some msg \<longrightarrow>
      fst (mark_for_deployment e git_url deploy_group service commit) = 1 \<and>
      logged (snd (mark_for_deployment e git_url deploy_group service commit)) =
        (service, ''Failed to mark '' @ commit @ '' in for deployment in deploy group '' @
                  deploy_group @ ''!'') #
        map (Pair service) (split_newline msg) \<and>
      length (split_newline msg) = Suc (count_list msg newline) \<and>
      (\<forall>l \<in> set (split_newline msg). newline \<notin> set l) \<and>
      join_newline (split_newline msg) = msg)"
  by (simp add: mark_for_deployment_def logged_map_Log length_split_newline join_split_newline
      split_newline_pieces)

theorem mark_for_deployment_result_witness:
  "create_remote_refs demo_env ''git@example.com:services/web''
     [format_tag demo_env (get_paasta_tag_from_deploy_group demo_env ''prod.main'' ''deploy'')]
     ''abc1234def567'' = None \<and>
   fst (mark_for_deployment demo_env ''git@example.com:services/web'' ''prod.main'' ''web''
          ''abc1234def567'') = 0 \<and>
   logged (snd (mark_for_deployment demo_env ''git@example.com:services/web'' ''prod.main'' ''web''
          ''abc1234def567'')) =
     [(''web'', ''Marked abc1234def567 in for deployment in deploy group prod.main'')] \<and>
   create_remote_refs rejecting_env ''git@example.com:services/web''
     [format_tag rejecting_env (get_paasta_tag_from_deploy_group rejecting_env ''prod.main'' ''deploy'')]
     ''abc1234def567'' = Some (''fatal: auth failed'' @ newline # ''remote: denied'') \<and>
   fst (mark_for_deployment rejecting_env ''git@example.com:services/web'' ''prod.main'' ''web''
          ''abc1234def567'') = 1 \<and>
   logged (snd (mark_for_deployment rejecting_env ''git@example.com:services/web'' ''prod.main''
          ''web'' ''abc1234def567'')) =
     [(''web'', ''Failed to mark abc1234def567 in for deployment in deploy group prod.main!''),
      (''web'', ''fatal: auth failed''),
      (''web'', ''remote: denied'')]"
proof -
  have ok: "create_remote_refs demo_env ''git@example.com:services/web''
     [format_tag demo_env (get_paasta_tag_from_deploy_group demo_env ''prod.main'' ''deploy'')]
     ''abc1234def567'' = None"
    by (simp add: demo_env_def)
  have ko: "create_remote_refs rejecting_env ''git@example.com:services/web''
     [format_tag rejecting_env (get_paasta_tag_from_deploy_group rejecting_env ''prod.main'' ''deploy'')]
     ''abc1234def567'' = Some (''fatal: auth failed'' @ newline # ''remote: denied'')"
    by (simp add: rejecting_env_def)
  have sp: "split_newline (''fatal: auth failed'' @ newline # ''remote: denied'') =
              [''fatal: auth failed'', ''remote: denied'']"
    by (simp add: newline_def)
  from mark_for_deployment_result [of demo_env "''git@example.com:services/web''" "''prod.main''"
      "''abc1234def567''" "''web''"] ok
  have a: "fst (mark_for_deployment demo_env ''git@example.com:services/web'' ''prod.main'' ''web''
          ''abc1234def567'') = 0 \<and>
   logged (snd (mark_for_deployment demo_env ''git@example.com:services/web'' ''prod.main'' ''web''
          ''abc1234def567'')) =
     [(''web'', ''Marked abc1234def567 in for deployment in deploy group prod.main'')]"
    by simp
  from mark_for_deployment_result [of rejecting_env "''git@example.com:services/web''" "''prod.main''"
      "''abc1234def567''" "''web''"] ko sp
  have b: "fst (mark_for_deployment rejecting_env ''git@example.com:services/web'' ''prod.main'' ''web''
          ''abc1234def567'') = 1 \<and>
   logged (snd (mark_for_deployment rejecting_env ''git@example.com:services/web'' ''prod.main''
          ''web'' ''abc1234def567'')) =
     [(''web'', ''Failed to mark abc1234def567 in for deployment in deploy group prod.main!''),
      (''web'', ''fatal: auth failed''),
      (''web'', ''remote: denied'')]"
    by simp
  from ok ko a b show ?thesis by simp
qed

text \<open>
  Two pushes that fail for different causes return the same value, so the returned
  result does not carry the cause; and the one-line message \<^verbatim>\<open>"error: failed\n"\<close>
  gives two event lines after the header, the second one empty, so the events are not
  one per physical line of the message.
\<close>

theorem failure_result_without_cause:
  "create_remote_refs rejecting_env ''git@example.com:services/web''
     [''refs/tags/paasta-prod.main-deploy''] ''abc1234def567'' \<noteq>
   create_remote_refs trailing_env ''git@example.com:services/web''
     [''refs/tags/paasta-prod.main-deploy''] ''abc1234def567'' \<and>
   fst (mark_for_deployment rejecting_env ''git@example.com:services/web'' ''prod.main'' ''web''
          ''abc1234def567'') =
   fst (mark_for_deployment trailing_env ''git@example.com:services/web'' ''prod.main'' ''web''
          ''abc1234def567'') \<and>
   logged (snd (mark_for_deployment trailing_env ''git@example.com:services/web'' ''prod.main''
          ''web'' ''abc1234def567'')) =
     [(''web'', ''Failed to mark abc1234def567 in for deployment in deploy group prod.main!''),
      (''web'', ''error: failed''),
      (''web'', [])]"
  by (simp add: mark_for_deployment_def rejecting_env_def trailing_env_def demo_env_def
      newline_def)

subsection \<open>Waiting\<close>

text \<open>
  C6. When the instance list of (service, deploy group) is empty,
  \<open>wait_for_deployment\<close> raises \<open>NoInstancesFound\<close> after the one API call that
  resolved the list and exactly one logged event: no status is polled and there is
  no sleep.
\<close>

theorem no_instances_found:
  "list_instances e service deploy_group = [] \<Longrightarrow>
   wait_for_deployment e service deploy_group sha soa_dir timeout =
     (Inl NoInstancesFound,
      [ListInstances service deploy_group,
       Log service (''Couldn't find any instances for service '' @ service @
                    '' in deploy group '' @ deploy_group)])"
  by (simp add: wait_for_deployment_def)

theorem no_instances_found_witness:
  "list_instances empty_env ''web'' ''prod.main'' = [] \<and>
   wait_for_deployment empty_env ''web'' ''prod.main'' ''abc1234def567'' ''/nail/etc/services'' 1200 =
     (Inl NoInstancesFound,
      [ListInstances ''web'' ''prod.main'',
       Log ''web'' ''Couldn't find any instances for service web in deploy group prod.main''])"
proof -
  have h: "list_instances empty_env ''web'' ''prod.main'' = []"
    by (simp add: empty_env_def)
  from h no_instances_found [OF h, of "''abc1234def567''" "''/nail/etc/services''" 1200]
  show ?thesis by simp
qed

text \<open>
  When no round finds every instance deployed and no readiness check raises, the loop
  can only end by the alarm: whatever number of operations fits before it, the wait
  raises \<open>TimeoutError\<close>, and the only event logged is the one of the handler, which
  names the \<^verbatim>\<open>timeout\<close> argument and the remedy.
\<close>

lemma wait_for_deployment_never_ready:
  assumes "list_instances e service deploy_group \<noteq> []"
    and "\<forall>k. \<forall>i \<in> set (list_instances e service deploy_group).
           \<exists>r. is_instance_deployed e k service i sha = Inr r"
    and "\<forall>k. \<exists>i \<in> set (list_instances e service deploy_group).
           is_instance_deployed e k service i sha = Inr False"
  shows "fst (wait_for_deployment e service deploy_group sha soa_dir timeout) = Inl TimeoutError \<and>
         logged (snd (wait_for_deployment e service deploy_group sha soa_dir timeout)) =
           [(service,
             ''Timed out after '' @ str_int timeout @ '' seconds, waiting for '' @
             deploy_group @ '' in '' @ service @ '' to be deployed by PaaSTA. '' @
             ''Try running 'paasta status -s '' @ service @
             '' -v' to determine the cause. If the service is slow '' @
             ''to start you may wish to increase the timeout'')]"
  using assms(1) wait_loop_never_ready [OF assms(2,3), of "alarm e timeout" 0]
  by (simp add: wait_for_deployment_def Let_def split_beta logged_append)

subsection \<open>The command wrapper\<close>

text \<open>
  C10. For every invocation of \<open>paasta_mark_for_deployment\<close> whose service argument
  begins with "services-" (and passes validation under its stripped name): the
  stripped name differs from the argument; the validator is called once, with the
  stripped name; the signalling operation is invoked with the stripped name, which
  every event it logs carries; and when the wait is requested, every API call of the
  wait (\<^verbatim>\<open>list_instances\<close> and each \<^verbatim>\<open>status_instance\<close>) carries the original,
  unstripped argument. Without the wait no API call is made.
\<close>

theorem wrapper_service_names:
  assumes "prefix ''services-'' (arg_service a)"
    and "validate_service_name e (drop 9 (arg_service a)) (arg_soa_dir a)"
  shows "drop 9 (arg_service a) \<noteq> arg_service a \<and>
         validated_services (snd (paasta_mark_for_deployment e a)) = [drop 9 (arg_service a)] \<and>
         prefix (ValidateServiceName (drop 9 (arg_service a)) (arg_soa_dir a) #
                 snd (mark_for_deployment e (arg_git_url a) (arg_deploy_group a)
                        (drop 9 (arg_service a)) (arg_commit a)))
                (snd (paasta_mark_for_deployment e a)) \<and>
         fst ` set (logged (snd (mark_for_deployment e (arg_git_url a) (arg_deploy_group a)
                        (drop 9 (arg_service a)) (arg_commit a)))) = {drop 9 (arg_service a)} \<and>
         set (queried_services (snd (paasta_mark_for_deployment e a))) =
           (if arg_block a then {arg_service a} else {})"
proof -
  let ?s = "drop 9 (arg_service a)"
  from strip_services_prefix [OF assms(1)]
  have st: "strip_services (arg_service a) = ?s" and ne: "?s \<noteq> arg_service a" by auto
  obtain ret tr1 where m:
    "mark_for_deployment e (arg_git_url a) (arg_deploy_group a) ?s (arg_commit a) = (ret, tr1)"
    by (cases "mark_for_deployment e (arg_git_url a) (arg_deploy_group a) ?s (arg_commit a)") auto
  have m1: "validated_services tr1 = [] \<and> queried_services tr1 = []"
    using m by (auto simp: mark_for_deployment_def Let_def validated_services_map_Log
        queried_services_map_Log split: option.splits)
  obtain res tr2 where w:
    "wait_for_deployment e (arg_service a) (arg_deploy_group a) (arg_commit a)
       (arg_soa_dir a) (arg_timeout a) = (res, tr2)"
    by (cases "wait_for_deployment e (arg_service a) (arg_deploy_group a) (arg_commit a)
       (arg_soa_dir a) (arg_timeout a)") auto
  note wt = wait_for_deployment_trace [OF w]
  have main: "validated_services (snd (paasta_mark_for_deployment e a)) = [?s] \<and>
         prefix (ValidateServiceName ?s (arg_soa_dir a) # tr1)
                (snd (paasta_mark_for_deployment e a)) \<and>
         set (queried_services (snd (paasta_mark_for_deployment e a))) =
           (if arg_block a then {arg_service a} else {})"
  proof (cases "arg_block a")
    case False
    with st m m1 assms(2) show ?thesis
      by (simp add: paasta_mark_for_deployment_def Let_def)
  next
    case True
    with st m m1 w wt assms(2) show ?thesis
      by (auto simp: paasta_mark_for_deployment_def Let_def queried_services_append
          validated_services_append split: sum.splits)
  qed
  with ne m mark_for_deployment_logged_service [of e "arg_git_url a" "arg_deploy_group a" ?s "arg_commit a"]
  show ?thesis by simp
qed

theorem wrapper_service_names_witness:
  "prefix ''services-'' (arg_service demo_args) \<and>
   validate_service_name demo_env ''web'' (arg_soa_dir demo_args) \<and>
   validated_services (snd (paasta_mark_for_deployment demo_env demo_args)) = [''web''] \<and>
   set (queried_services (snd (paasta_mark_for_deployment demo_env demo_args))) = {''services-web''}"
proof -
  have p: "prefix ''services-'' (arg_service demo_args)"
    by (simp add: demo_args_def)
  have v: "validate_service_name demo_env (drop 9 (arg_service demo_args)) (arg_soa_dir demo_args)"
    by (simp add: demo_env_def)
  have d: "drop 9 (arg_service demo_args) = ''web''" "arg_block demo_args"
    "arg_service demo_args = ''services-web''"
    by (simp_all add: demo_args_def)
  from wrapper_service_names [OF p v] p v d show ?thesis by simp
qed

subsection \<open>Reconciliation\<close>

text \<open>
  C2. Autoscaler reconciliation by cases of (policy, live autoscaler): with the policy
  bespoke no call is issued whatever the live state; with no policy and a live
  autoscaler exactly one delete and nothing else; with the managed policy and no live
  autoscaler exactly one create with the computed spec; with the managed policy and a
  live autoscaler exactly one patch with the computed spec and no create.
\<close>

theorem sync_horizontal_pod_autoscaler_cases:
  "sync_horizontal_pod_autoscaler Bespoke exists_hpa name namespace body = [] \<and>
   sync_horizontal_pod_autoscaler Absent True name namespace body = [DeleteHpa] \<and>
   sync_horizontal_pod_autoscaler Managed False name namespace body = [CreateHpa namespace body] \<and>
   sync_horizontal_pod_autoscaler Managed True name namespace body =
     [PatchHpa namespace name body]"
  by (simp add: sync_horizontal_pod_autoscaler_def)

text \<open>The cases of the tests: name \<^verbatim>\<open>fake_name\<close>, namespace \<^verbatim>\<open>faasta\<close>.\<close>

theorem sync_horizontal_pod_autoscaler_cases_witness:
  "sync_horizontal_pod_autoscaler Bespoke False ''fake_name'' ''faasta'' (3::nat) = [] \<and>
   sync_horizontal_pod_autoscaler Absent True ''fake_name'' ''faasta'' (3::nat) = [DeleteHpa] \<and>
   sync_horizontal_pod_autoscaler Managed False ''fake_name'' ''faasta'' (3::nat) =
     [CreateHpa ''faasta'' 3] \<and>
   sync_horizontal_pod_autoscaler Managed True ''fake_name'' ''faasta'' (3::nat) =
     [PatchHpa ''faasta'' ''fake_name'' 3]"
  using sync_horizontal_pod_autoscaler_cases [of False "''fake_name''" "''faasta''" "3::nat"]
  by simp

text \<open>
  C3. Disruption-budget reconciliation issues exactly one create with the computed
  budget when the read of the live budget reports 404, and exactly one patch with the
  computed budget whenever a live budget exists, whatever its prior value: also when
  the live budget already equals the computed one.
\<close>

theorem ensure_pod_disruption_budget_cases:
  "ensure_pod_disruption_budget pdr (ApiException 404) = Inr [CreatePdr pdr] \<and>
   ensure_pod_disruption_budget pdr (Live existing_pdr) = Inr [PatchPdr pdr] \<and>
   ensure_pod_disruption_budget pdr (Live pdr) = Inr [PatchPdr pdr]"
  by (simp add: ensure_pod_disruption_budget_def)

text \<open>The values of the tests: computed max-unavailable 10, live value 5.\<close>

theorem ensure_pod_disruption_budget_cases_witness:
  "ensure_pod_disruption_budget (10::int) (ApiException 404) = Inr [CreatePdr 10] \<and>
   ensure_pod_disruption_budget (10::int) (Live 5) = Inr [PatchPdr 10] \<and>
   ensure_pod_disruption_budget (10::int) (Live 10) = Inr [PatchPdr 10]"
  using ensure_pod_disruption_budget_cases [of "10::int" 5]
  by simp

end
